theory Spec2Isabelle
  imports Complex_Main "HOL-Library.Sublist" "HOL-Library.Log_Nat"
begin

section \<open>Data model (video\_utils.py)\<close>

text \<open>
  Python strings are modelled as \<open>string\<close> and Python's unbounded \<open>int\<close> as \<open>int\<close>. The
  floats that the program only stores or cuts to an integer (a duration, the clock, the
  vectors) are \<open>real\<close>; the one float product, \<open>num_videos * 1.5\<close>, is computed as the double
  arithmetic of Python computes it, with its rounding and its overflow.
\<close>

definition MAX_DURATION :: int where
  "MAX_DURATION = 120"

text \<open>\<open>class YoutubeResult(BaseModel)\<close>; the field \<open>length\<close> is named \<open>length_yt\<close> here.\<close>

record YoutubeResult =
  video_id :: string
  title :: string
  description :: "string option"
  length_yt :: int
  views :: int

text \<open>\<open>class VideoMetadata(BaseModel)\<close>; fields shared with \<open>YoutubeResult\<close> carry the prefix \<open>vm_\<close>.\<close>

record VideoMetadata =
  vm_video_id :: string
  vm_description :: string
  vm_views :: int
  start_time :: real
  end_time :: real
  video_emb :: "real list"
  description_emb :: "real list"

text \<open>
  The exceptions of the program: the two classes of video\_utils.py, and \<open>Exception\<close> for
  every other subclass of Python's \<open>Exception\<close>, with its message.
\<close>

datatype error =
  FakeVideoException string
| IPBlockedException string
| Exception string

text \<open>
  The observable effects, in the order they happen: calls of the three collaborators, the
  clock, the temporary file (created, closed) and the lines printed.
\<close>

datatype event =
  ExtractInfo int string
| Print string
| PrintLen string nat
| Time
| Mktemp string
| Download string "(int \<times> int) option" "string option"
| Close string
| Embed "string list" "string list"

text \<open>\<open>int(x)\<close> on a float: truncation towards zero.\<close>

definition py_int :: "real \<Rightarrow> int" where
  "py_int x = (if 0 \<le> x then \<lfloor>x\<rfloor> else \<lceil>x\<rceil>)"

text \<open>How an f-string renders an optional string: \<open>None\<close> is printed as the word None.\<close>

definition fmt :: "string option \<Rightarrow> string" where
  "fmt v = (case v of None \<Rightarrow> ''None'' | Some s \<Rightarrow> s)"

definition is_valid_id :: "string option \<Rightarrow> bool" where
  "is_valid_id youtube_id = (case youtube_id of None \<Rightarrow> False | Some s \<Rightarrow> length s = 11)"

section \<open>search\_videos\<close>

text \<open>
  One element of \<open>result["entries"]\<close>. For \<open>e_id\<close> and \<open>e_title\<close>, \<open>None\<close> is a key that is
  missing (\<open>entry["id"]\<close> raises KeyError, whose text is the key in quotes); for the other
  three it is what \<open>entry.get\<close> returns for a missing key or a \<open>None\<close> value.
\<close>

record entry =
  e_id :: "string option"
  e_title :: "string option"
  e_description :: "string option"
  e_duration :: "real option"
  e_view_count :: "int option"

text \<open>
  What \<open>ydl.extract_info\<close> does: it raises, or returns a dictionary whose key \<open>entries\<close> is
  absent (\<open>None\<close>) or holds a list.
\<close>

datatype search_outcome =
  SearchRaises string
| SearchReturns "entry list option"

definition key_error :: "string \<Rightarrow> error" where
  "key_error k = Exception ([CHR 0x27] @ k @ [CHR 0x27])"

definition result_of_entry :: "entry \<Rightarrow> error + YoutubeResult" where
  "result_of_entry e =
     (case e_id e of
        None \<Rightarrow> Inl (key_error ''id'')
      | Some i \<Rightarrow>
          (case e_title e of
             None \<Rightarrow> Inl (key_error ''title'')
           | Some t \<Rightarrow>
               Inr \<lparr>video_id = i, title = t, description = e_description e,
                    length_yt = (case e_duration e of
                                   None \<Rightarrow> MAX_DURATION
                                 | Some d \<Rightarrow> if d \<noteq> 0 then py_int d else MAX_DURATION),
                    views = (case e_view_count e of
                               None \<Rightarrow> 0
                             | Some v \<Rightarrow> if v \<noteq> 0 then v else 0)\<rparr>))"

text \<open>The list comprehension: the first entry that raises ends it.\<close>

fun results_of_entries :: "entry list \<Rightarrow> error + YoutubeResult list" where
  "results_of_entries [] = Inr []"
| "results_of_entries (e # es) =
     (case result_of_entry e of
        Inl err \<Rightarrow> Inl err
      | Inr r \<Rightarrow> (case results_of_entries es of Inl err \<Rightarrow> Inl err | Inr rs \<Rightarrow> Inr (r # rs)))"

text \<open>
  The body of the \<open>try\<close> block. The search string \<open>ytsearch{max_results}:{query}\<close> is kept as
  the pair of its two parts.
\<close>

definition search_videos_try ::
  "(int \<Rightarrow> string \<Rightarrow> search_outcome) \<Rightarrow> string \<Rightarrow> int \<Rightarrow> error + YoutubeResult list" where
  "search_videos_try ydl_extract_info query max_results =
     (case ydl_extract_info max_results query of
        SearchRaises msg \<Rightarrow> Inl (Exception msg)
      | SearchReturns None \<Rightarrow> Inr []
      | SearchReturns (Some entries) \<Rightarrow>
          (if entries \<noteq> [] then results_of_entries entries else Inr []))"

definition message :: "error \<Rightarrow> string" where
  "message e = (case e of FakeVideoException m \<Rightarrow> m | IPBlockedException m \<Rightarrow> m | Exception m \<Rightarrow> m)"

definition search_videos ::
  "(int \<Rightarrow> string \<Rightarrow> search_outcome) \<Rightarrow> string \<Rightarrow> int \<Rightarrow> YoutubeResult list \<times> event list" where
  "search_videos ydl_extract_info query max_results =
     (case search_videos_try ydl_extract_info query max_results of
        Inl e \<Rightarrow> ([], [ExtractInfo max_results query,
                       Print (''Error searching for videos: '' @ message e)])
      | Inr videos \<Rightarrow> (videos, [ExtractInfo max_results query]))"

section \<open>download\_video\<close>

text \<open>
  What happens inside the \<open>try\<close> block of \<open>download_video\<close>: an exception with its message,
  or a download that ends with the temporary file holding the given number of bytes.
\<close>

datatype dl_outcome =
  DlRaises string
| DlWrote nat

definition ip_blocked :: "string \<Rightarrow> bool" where
  "ip_blocked str_e =
     (sublist ''Your IP is likely being blocked by Youtube'' str_e \<or>
      sublist ''Requested format is not available'' str_e)"

definition fake_video :: "string \<Rightarrow> bool" where
  "fake_video str_e =
     list_ex (\<lambda>fake_vid_msg. sublist fake_vid_msg str_e)
       [''Video unavailable'', ''is not a valid URL'', ''Incomplete YouTube ID'']"

text \<open>The option \<open>download_ranges\<close>: set only when both ends of the window are given.\<close>

definition download_ranges :: "int option \<Rightarrow> int option \<Rightarrow> (int \<times> int) option" where
  "download_ranges start end =
     (case start of
        None \<Rightarrow> None
      | Some s \<Rightarrow> (case end of None \<Rightarrow> None | Some e \<Rightarrow> Some (s, e)))"

text \<open>
  \<open>ydl_download\<close> is the download provider and \<open>temp_fileobj\<close> the name of the file that
  \<open>tempfile.NamedTemporaryFile\<close> creates; a handle is the name of its file. A primed name is
  the source's name without the prime.
\<close>

definition download_video ::
  "(string \<Rightarrow> (int \<times> int) option \<Rightarrow> string option \<Rightarrow> dl_outcome) \<Rightarrow> string \<Rightarrow>
   string option \<Rightarrow> int option \<Rightarrow> int option \<Rightarrow> string option \<Rightarrow>
   (error + string option) \<times> event list" where
  "download_video ydl_download temp_fileobj video_id' start end proxy =
     (if \<not> is_valid_id video_id'
      then (Inl (FakeVideoException (''Invalid video ID: '' @ fmt video_id')), [])
      else
        (let video_url = ''https://www.youtube.com/watch?v='' @ fmt video_id';
             ranges = download_ranges start end;
             issued = [Mktemp temp_fileobj, Download video_url ranges proxy]
         in case ydl_download video_url ranges proxy of
              DlWrote st_size \<Rightarrow>
                (if st_size = 0
                 then (Inr None,
                       issued @ [Print (''Error downloading video: '' @ temp_fileobj @ '' is empty''),
                                 Close temp_fileobj])
                 else (Inr (Some temp_fileobj), issued))
            | DlRaises str_e \<Rightarrow>
                (if ip_blocked str_e
                 then (Inl (IPBlockedException str_e), issued @ [Close temp_fileobj])
                 else if fake_video str_e
                 then (Inl (FakeVideoException str_e), issued @ [Close temp_fileobj])
                 else (Inr None,
                       issued @ [Close temp_fileobj,
                                 Print (''Error downloading video: '' @ str_e)]))))"

section \<open>get\_description\<close>

definition get_description :: "YoutubeResult \<Rightarrow> string" where
  "get_description yt =
     (case description yt of
        None \<Rightarrow> title yt
      | Some d \<Rightarrow> if d \<noteq> [] then title yt @ [CHR 0x0A, CHR 0x0A] @ d else title yt)"

section \<open>search\_and\_embed\_videos (main.py)\<close>

text \<open>
  What \<open>imagebind.embed\<close> does: it raises, or returns the two lists \<open>video\<close> and
  \<open>description\<close> of vectors.
\<close>

datatype embed_outcome =
  EmbedRaises string
| Embeddings "real list list" "real list list"

text \<open>
  The collaborators of one run. Each candidate is downloaded and embedded at most once and
  the clock is read once for it, so the answers are indexed by the position of the candidate
  in the search results.
\<close>

record env =
  extract_info :: "int \<Rightarrow> string \<Rightarrow> search_outcome"
  clock :: "nat \<Rightarrow> real"
  mktemp :: "nat \<Rightarrow> string"
  ydl_download :: "nat \<Rightarrow> string \<Rightarrow> (int \<times> int) option \<Rightarrow> string option \<Rightarrow> dl_outcome"
  embed :: "nat \<Rightarrow> string list \<Rightarrow> string list \<Rightarrow> embed_outcome"

text \<open>The body of the inner \<open>try\<close>: description, embeddings, and the record to append.\<close>

definition embed_candidate ::
  "env \<Rightarrow> nat \<Rightarrow> YoutubeResult \<Rightarrow> real \<Rightarrow> string \<Rightarrow> (error + VideoMetadata) \<times> event list" where
  "embed_candidate env i result start download_path =
     (let description' = get_description result;
          called = [Embed [description'] [download_path]]
      in case embed env i [description'] [download_path] of
           EmbedRaises msg \<Rightarrow> (Inl (Exception msg), called)
         | Embeddings video_embs description_embs \<Rightarrow>
             (case video_embs of
                [] \<Rightarrow> (Inl (Exception ''list index out of range''), called)
              | v0 # _ \<Rightarrow>
                  (case description_embs of
                     [] \<Rightarrow> (Inl (Exception ''list index out of range''), called)
                   | d0 # _ \<Rightarrow>
                       (Inr \<lparr>vm_video_id = video_id result,
                             vm_description = description',
                             vm_views = views result,
                             start_time = start,
                             end_time = of_int MAX_DURATION,
                             video_emb = v0,
                             description_emb = d0\<rparr>, called))))"

text \<open>
  One iteration of the loop up to the test of the length: the result is the record to append,
  if any. The \<open>finally\<close> clause closes the handle whatever the body of the \<open>try\<close> did.
\<close>

definition process_candidate ::
  "env \<Rightarrow> nat \<Rightarrow> YoutubeResult \<Rightarrow> (error + VideoMetadata option) \<times> event list" where
  "process_candidate env i result =
     (let start = clock env i
      in case download_video (ydl_download env i) (mktemp env i) (Some (video_id result))
                (Some 0) (Some (min (length_yt result) MAX_DURATION)) None of
           (Inl e, evs) \<Rightarrow> (Inl e, Time # evs)
         | (Inr None, evs) \<Rightarrow> (Inr None, Time # evs)
         | (Inr (Some download_path), evs) \<Rightarrow>
             (case embed_candidate env i result start download_path of
                (Inl e, evs') \<Rightarrow> (Inl e, Time # evs @ evs' @ [Close download_path])
              | (Inr meta, evs') \<Rightarrow> (Inr (Some meta), Time # evs @ evs' @ [Close download_path])))"

fun loop ::
  "env \<Rightarrow> int \<Rightarrow> nat \<Rightarrow> YoutubeResult list \<Rightarrow> VideoMetadata list \<Rightarrow>
   (error + VideoMetadata list) \<times> event list" where
  "loop env num_videos i [] video_metas = (Inr video_metas, [])"
| "loop env num_videos i (result # results) video_metas =
     (case process_candidate env i result of
        (Inl e, evs) \<Rightarrow> (Inl e, evs)
      | (Inr appended, evs) \<Rightarrow>
          (let video_metas' = (case appended of None \<Rightarrow> video_metas | Some m \<Rightarrow> video_metas @ [m])
           in if int (length video_metas') = num_videos then (Inr video_metas', evs)
              else (case loop env num_videos (Suc i) results video_metas' of
                      (r, evs') \<Rightarrow> (r, evs @ evs'))))"

text \<open>
  The expression \<open>int(num_videos * 1.5)\<close> in double arithmetic. Every float in it is a whole
  number of halves, so a float is kept as that number: \<open>a\<close> stands for \<open>a / 2\<close>.

  \<open>round_half_even a q\<close> is \<open>a / q\<close> rounded to the nearest integer, a tie going to the even
  one. \<open>double_of_halves a\<close> is the double nearest to \<open>a / 2\<close>: a number of at most 53 bits is
  kept, a longer one is rounded to its leading 53 bits. A double is finite below \<open>2^1024\<close>.

  \<open>int_times_1_5\<close> converts \<open>num_videos\<close> to a float (OverflowError when the nearest double is
  not finite), multiplies by 1.5 (an overflow gives infinity, and \<open>int\<close> of infinity raises
  OverflowError) and cuts the product towards zero.
\<close>

definition round_half_even :: "int \<Rightarrow> int \<Rightarrow> int" where
  "round_half_even a q =
     (let d = a div q; r = a mod q
      in if 2 * r < q then d else if q < 2 * r then d + 1 else if even d then d else d + 1)"

definition double_of_halves :: "int \<Rightarrow> int" where
  "double_of_halves a =
     (let bits = bitlen \<bar>a\<bar>
      in if bits \<le> 53 then a
         else (let q = 2 ^ nat (bits - 53) in round_half_even a q * q))"

definition is_finite_halves :: "int \<Rightarrow> bool" where
  "is_finite_halves b = (\<bar>b\<bar> < 2 ^ 1025)"

definition int_times_1_5 :: "int \<Rightarrow> error + int" where
  "int_times_1_5 num_videos =
     (let x = double_of_halves (2 * num_videos)
      in if \<not> is_finite_halves x then Inl (Exception ''int too large to convert to float'')
         else (let p = double_of_halves (3 * (x div 2))
               in if \<not> is_finite_halves p
                  then Inl (Exception ''cannot convert float infinity to integer'')
                  else Inr (if 0 \<le> p then p div 2 else - ((- p) div 2))))"

text \<open>The routine: an exception in the first line leaves it before anything has happened.\<close>

definition search_and_embed_videos ::
  "env \<Rightarrow> string \<Rightarrow> int \<Rightarrow> (error + VideoMetadata list) \<times> event list" where
  "search_and_embed_videos env query num_videos =
     (case int_times_1_5 num_videos of
        Inl e \<Rightarrow> (Inl e, [])
      | Inr max_results \<Rightarrow>
          (case search_videos (extract_info env) query max_results of
             (results, evs) \<Rightarrow>
               (case loop env num_videos 0 results [] of
                  (r, evs') \<Rightarrow>
                    (r, evs @ [PrintLen ''search_results'' (length results)] @ evs'))))"

section \<open>The life of the media handle\<close>

text \<open>
  A monitor that reads the events of a run and remembers the handle that is live, if any.
  It stops with \<open>None\<close> when a temporary file is created while another one is live, when
  a handle other than the live one is closed, or when the clock is read (the first statement
  of an iteration) while a handle is live.
\<close>

fun release_step :: "string option \<Rightarrow> event \<Rightarrow> string option option" where
  "release_step live (Mktemp h) = (if live = None then Some (Some h) else None)"
| "release_step live (Close h) = (if live = Some h then Some None else None)"
| "release_step live Time = (if live = None then Some None else None)"
| "release_step live e = Some live"

fun track :: "string option \<Rightarrow> event list \<Rightarrow> string option option" where
  "track live [] = Some live"
| "track live (e # es) =
     (case release_step live e of None \<Rightarrow> None | Some live' \<Rightarrow> track live' es)"

text \<open>The events that are a request to the search provider.\<close>

fun is_search :: "event \<Rightarrow> bool" where
  "is_search (ExtractInfo n q) = True"
| "is_search e = False"

section \<open>Sample collaborators\<close>

text \<open>
  A search result with a well-formed identifier and the given duration, and collaborators
  that return the given entries and succeed at each step, with the clock at \<open>now\<close>.
\<close>

definition sample_entry :: "real option \<Rightarrow> entry" where
  "sample_entry d =
     \<lparr>e_id = Some ''dQw4w9WgXcQ'', e_title = Some ''omega'', e_description = None,
      e_duration = d, e_view_count = Some 7\<rparr>"

definition sample_env :: "entry list \<Rightarrow> real \<Rightarrow> env" where
  "sample_env entries now =
     \<lparr>extract_info = (\<lambda>max_results query. SearchReturns (Some entries)),
      clock = (\<lambda>i. now),
      mktemp = (\<lambda>i. ''clip.mp4''),
      ydl_download = (\<lambda>i video_url download_ranges proxy. DlWrote 1024),
      embed = (\<lambda>i texts media. Embeddings [[1]] [[2]])\<rparr>"

text \<open>Download providers with one fixed answer: an exception, or a file of a given size.\<close>

definition raising_download ::
  "string \<Rightarrow> string \<Rightarrow> (int \<times> int) option \<Rightarrow> string option \<Rightarrow> dl_outcome" where
  "raising_download str_e video_url ranges proxy = DlRaises str_e"

definition writing_download ::
  "nat \<Rightarrow> string \<Rightarrow> (int \<times> int) option \<Rightarrow> string option \<Rightarrow> dl_outcome" where
  "writing_download st_size video_url ranges proxy = DlWrote st_size"

text \<open>Collaborators whose search raises, and whose embedding raises.\<close>

definition failing_search_env :: env where
  "failing_search_env =
     (sample_env [] 0)\<lparr>extract_info := (\<lambda>max_results query. SearchRaises ''network down'')\<rparr>"

definition failing_embed_env :: env where
  "failing_embed_env =
     (sample_env [sample_entry None] 0)\<lparr>embed := (\<lambda>i texts media. EmbedRaises ''out of memory'')\<rparr>"

section \<open>The float product\<close>

text \<open>
  Below \<open>2^53\<close> every number of halves is a double, so for \<open>3 * |num_videos| < 2^53\<close> neither
  the conversion nor the product rounds, and \<open>int(num_videos * 1.5)\<close> is three halves of
  \<open>num_videos\<close> cut towards zero.
\<close>

lemma double_of_halves_exact: "\<bar>a\<bar> < 2 ^ 53 \<Longrightarrow> double_of_halves a = a"
  by (simp add: double_of_halves_def bitlen_le_iff_power)

lemma int_times_1_5_exact:
  assumes "3 * \<bar>N\<bar> < 2 ^ 53"
  shows "int_times_1_5 N = Inr (if 0 \<le> N then 3 * N div 2 else - (3 * (- N) div 2))"
proof -
  have a: "\<bar>2 * N\<bar> < 2 ^ 53" using assms by simp
  have b: "\<bar>3 * N\<bar> < 2 ^ 53" using assms by (simp add: abs_mult)
  have big: "(2::int) ^ 53 < 2 ^ 1025" by simp
  have x: "double_of_halves (2 * N) = 2 * N" by (rule double_of_halves_exact[OF a])
  have p: "double_of_halves (3 * N) = 3 * N" by (rule double_of_halves_exact[OF b])
  show ?thesis
    using a b big by (auto simp add: int_times_1_5_def x p is_finite_halves_def Let_def)
qed

text \<open>
  Beyond that the product rounds: the first target count at which the result is not the
  floor of three halves is 3002399751580333, where 4503599627370499.5 is a tie and goes to
  the even neighbour.
\<close>

lemma int_times_1_5_rounds: "int_times_1_5 3002399751580333 = Inr 4503599627370500"
  by code_simp

text \<open>
  A target count too large for a float: the conversion raises, and the run ends with that
  exception before any request, download or embedding.
\<close>

lemma int_times_1_5_overflows:
  "int_times_1_5 (2 ^ 1024) = Inl (Exception ''int too large to convert to float'')"
  by code_simp

lemma overflow_run_is_empty:
  "search_and_embed_videos env query (2 ^ 1024) =
     (Inl (Exception ''int too large to convert to float''), [])"
  by (simp only: search_and_embed_videos_def int_times_1_5_overflows sum.case)

section \<open>Evaluating runs\<close>

lemmas run_defs =
  search_and_embed_videos_def sample_env_def sample_entry_def search_videos_def
  search_videos_try_def result_of_entry_def py_int_def MAX_DURATION_def
  process_candidate_def download_video_def download_ranges_def is_valid_id_def fmt_def
  embed_candidate_def get_description_def message_def Let_def int_times_1_5_exact

section \<open>The clip window of a record\<close>

text \<open>
  Whatever the collaborators do, a record that an iteration appends carries the reading of
  the clock at the start of that iteration as its \<open>start_time\<close> and \<open>MAX_DURATION\<close> as its
  \<open>end_time\<close>; neither end of the window \<open>[0, min(length, MAX_DURATION))\<close> that was passed to
  \<open>download_video\<close> reaches the record.
\<close>

lemma record_window:
  "process_candidate env i r = (Inr (Some m), evs) \<Longrightarrow>
   start_time m = clock env i \<and> end_time m = 120"
  by (auto simp add: process_candidate_def embed_candidate_def Let_def MAX_DURATION_def
      split: prod.splits sum.splits option.splits embed_outcome.splits list.splits)

text \<open>
  Claim C1: every emitted record satisfies \<open>0 \<le> start_time < end_time \<le> MAX_DURATION\<close>.
  The run below has one candidate, every step succeeds, and the clock reads 1700000000
  seconds since the epoch: the record's \<open>start_time\<close> is that reading and its \<open>end_time\<close> is
  120, so \<open>start_time < end_time\<close> does not hold.
\<close>

theorem record_start_time_is_clock_reading:
  "fst (search_and_embed_videos (sample_env [sample_entry None] 1700000000) ''omega'' 1) =
     Inr [\<lparr>vm_video_id = ''dQw4w9WgXcQ'', vm_description = ''omega'', vm_views = 7,
           start_time = 1700000000, end_time = 120, video_emb = [1], description_emb = [2]\<rparr>]
   \<and> \<not> ((1700000000::real) < 120)"
  by (simp add: run_defs)

text \<open>
  Claim C2: the \<open>end_time\<close> of a record is the end of the window used,
  \<open>min(duration, MAX_DURATION)\<close>, so 50 for a candidate of duration 50. The run below has one
  candidate of duration 50: the download is asked for the window from 0 to 50, and the
  record's \<open>end_time\<close> is 120.
\<close>

theorem record_end_time_ignores_duration:
  "search_and_embed_videos (sample_env [sample_entry (Some 50)] 5) ''omega'' 1 =
     (Inr [\<lparr>vm_video_id = ''dQw4w9WgXcQ'', vm_description = ''omega'', vm_views = 7,
            start_time = 5, end_time = 120, video_emb = [1], description_emb = [2]\<rparr>],
      [ExtractInfo 1 ''omega'', PrintLen ''search_results'' 1, Time, Mktemp ''clip.mp4'',
       Download ''https://www.youtube.com/watch?v=dQw4w9WgXcQ'' (Some (0, 50)) None,
       Embed [''omega''] [''clip.mp4''], Close ''clip.mp4''])"
  by (simp add: run_defs)

section \<open>The number of records\<close>





text \<open>
  The target 0 is outside the bound proved above: the test \<open>len(video_metas) == num_videos\<close>
  is made after a record is appended, when the length is already 1, so with a search that
  answers a request for 0 results with a candidate the run returns one record.
\<close>

lemma zero_target_returns_a_record:
  "fst (search_and_embed_videos (sample_env [sample_entry None] 5) ''omega'' 0) =
     Inr [\<lparr>vm_video_id = ''dQw4w9WgXcQ'', vm_description = ''omega'', vm_views = 7,
           start_time = 5, end_time = 120, video_emb = [1], description_emb = [2]\<rparr>]"
  by (simp add: run_defs)

section \<open>The search request\<close>

text \<open>Only \<open>search_videos\<close> calls the search provider, and it calls it once.\<close>

lemma search_download:
  "download_video ydl tmp vid s e p = (res, evs) \<Longrightarrow> filter is_search evs = []"
  by (auto simp add: download_video_def Let_def split: dl_outcome.splits if_splits)

lemma search_embed:
  "embed_candidate env i r st dp = (res, evs) \<Longrightarrow> filter is_search evs = []"
  by (auto simp add: embed_candidate_def Let_def split: embed_outcome.splits list.splits)

lemma search_process:
  assumes "process_candidate env i r = (res, evs)"
  shows "filter is_search evs = []"
proof -
  obtain o1 ev1 where d: "download_video (ydl_download env i) (mktemp env i) (Some (video_id r))
      (Some 0) (Some (min (length_yt r) MAX_DURATION)) None = (o1, ev1)"
    by fastforce
  note f1 = search_download[OF d]
  show ?thesis
  proof (cases o1)
    case (Inl err)
    then show ?thesis using assms d f1 by (auto simp add: process_candidate_def)
  next
    case (Inr got)
    show ?thesis
    proof (cases got)
      case None
      then show ?thesis using assms d f1 Inr by (auto simp add: process_candidate_def)
    next
      case (Some download_path)
      obtain o2 ev2 where e: "embed_candidate env i r (clock env i) download_path = (o2, ev2)"
        by fastforce
      have evs: "evs = Time # ev1 @ ev2 @ [Close download_path]"
        using assms d e Inr Some
        by (auto simp add: process_candidate_def Let_def split: sum.splits)
      show ?thesis using f1 search_embed[OF e] by (simp add: evs)
    qed
  qed
qed

lemma search_loop: "loop env N i rs ms = (res, evs) \<Longrightarrow> filter is_search evs = []"
proof (induction rs arbitrary: i ms res evs)
  case Nil
  then show ?case by simp
next
  case (Cons r rs)
  obtain o1 ev1 where p: "process_candidate env i r = (o1, ev1)" by fastforce
  note f1 = search_process[OF p]
  show ?case
  proof (cases o1)
    case (Inl err)
    then show ?thesis using Cons.prems p f1 by simp
  next
    case (Inr appended)
    define ms' where "ms' = (case appended of None \<Rightarrow> ms | Some m \<Rightarrow> ms @ [m])"
    show ?thesis
    proof (cases "int (length ms') = N")
      case True
      then show ?thesis using Cons.prems p f1 Inr by (simp add: ms'_def Let_def)
    next
      case False
      obtain o2 ev2 where l: "loop env N (Suc i) rs ms' = (o2, ev2)" by fastforce
      have "evs = ev1 @ ev2" using Cons.prems p Inr False l by (simp add: ms'_def Let_def)
      then show ?thesis using f1 Cons.IH[OF l] by simp
    qed
  qed
qed

lemma search_search:
  "search_videos ydl q n = (res, evs) \<Longrightarrow> filter is_search evs = [ExtractInfo n q]"
  by (auto simp add: search_videos_def split: sum.splits)

text \<open>
  Claim C4, amended: for every target count \<open>N\<close> from 2 up to the largest one whose product
  with 1.5 is exact in double arithmetic (\<open>3 * N \<le> 2^53\<close>), a run makes exactly one request to
  the search provider, for the floor of \<open>N * 1.5\<close> results (the product rounded down, not up),
  which is more than \<open>N\<close>.
\<close>

theorem search_request_count:
  "2 \<le> num_videos \<Longrightarrow> 3 * num_videos \<le> 2 ^ 53 \<Longrightarrow>
   filter is_search (snd (search_and_embed_videos env query num_videos)) =
     [ExtractInfo \<lfloor>real_of_int num_videos * 1.5\<rfloor> query]
   \<and> num_videos < \<lfloor>real_of_int num_videos * 1.5\<rfloor>"
proof -
  assume two: "2 \<le> num_videos" and le: "3 * num_videos \<le> 2 ^ 53"
  have "3 * num_videos \<noteq> 2 ^ 53"
  proof
    assume "3 * num_videos = 2 ^ 53"
    then have "(3 * num_videos) mod 3 = (2 ^ 53 :: int) mod 3" by simp
    then show False by simp
  qed
  then have small: "3 * \<bar>num_videos\<bar> < 2 ^ 53" using two le by simp
  have fl: "\<lfloor>real_of_int num_videos * 1.5\<rfloor> = 3 * num_videos div 2"
  proof -
    have "real_of_int num_videos * (15 / 10) = real_of_int (3 * num_videos) / real_of_int 2"
      by simp
    then show ?thesis by (simp only: floor_divide_of_int_eq)
  qed
  have count: "int_times_1_5 num_videos = Inr (3 * num_videos div 2)"
    using int_times_1_5_exact[OF small] two by simp
  obtain results ev1 where
    s: "search_videos (extract_info env) query (3 * num_videos div 2) = (results, ev1)"
    by fastforce
  obtain r ev2 where l: "loop env num_videos 0 results [] = (r, ev2)" by fastforce
  have "snd (search_and_embed_videos env query num_videos) =
        ev1 @ [PrintLen ''search_results'' (length results)] @ ev2"
    using s l count by (simp add: search_and_embed_videos_def)
  then have "filter is_search (snd (search_and_embed_videos env query num_videos)) =
        [ExtractInfo (3 * num_videos div 2) query]"
    using search_search[OF s] search_loop[OF l] by simp
  moreover have "num_videos < 3 * num_videos div 2" using two by linarith
  ultimately show ?thesis by (simp only: fl simp_thms)
qed

theorem search_request_count_witness:
  "(2::int) \<le> 3 \<and> (3::int) * 3 \<le> 2 ^ 53
   \<and> filter is_search (snd (search_and_embed_videos (sample_env [] 0) ''omega'' 3)) =
       [ExtractInfo 4 ''omega'']"
proof -
  have a: "(2::int) \<le> 3" by simp
  have b: "(3::int) * 3 \<le> 2 ^ 53" by simp
  have f: "\<lfloor>real_of_int 3 * 1.5\<rfloor> = 4" by simp
  show ?thesis
    using search_request_count[OF a b, of "sample_env [] 0" "''omega''"] a b f by simp
qed

text \<open>
  The claim as stated fails at the target count 3: the ceiling of 4.5 is 5, and the request
  is for 4 results.
\<close>

theorem search_request_ceiling_counterexample:
  "filter is_search (snd (search_and_embed_videos (sample_env [] 0) ''omega'' 3)) \<noteq>
     [ExtractInfo \<lceil>(3::real) * 1.5\<rceil> ''omega'']"
  by (simp add: run_defs)

section \<open>Identifiers and failures of the download\<close>

text \<open>
  Claim C5: for an identifier that is absent or not exactly 11 characters long,
  \<open>download_video\<close> raises \<open>FakeVideoException\<close> and nothing has happened before: no temporary
  file, no call of the download provider.
\<close>

theorem download_video_rejects_invalid_id:
  "(case vid of None \<Rightarrow> True | Some s \<Rightarrow> length s \<noteq> 11) \<Longrightarrow>
   download_video ydl tmp vid start end proxy =
     (Inl (FakeVideoException (''Invalid video ID: '' @ fmt vid)), [])"
  by (simp add: download_video_def is_valid_id_def split: option.splits)

theorem download_video_rejects_invalid_id_witness:
  "download_video (writing_download 1024) ''clip.mp4'' None (Some 0) (Some 120) None =
     (Inl (FakeVideoException ''Invalid video ID: None''), [])
   \<and> download_video (writing_download 1024) ''clip.mp4'' (Some ''dQw4w9WgXc'')
        (Some 0) (Some 120) None =
     (Inl (FakeVideoException ''Invalid video ID: dQw4w9WgXc''), [])
   \<and> download_video (writing_download 1024) ''clip.mp4'' (Some ''dQw4w9WgXcQQ'')
        (Some 0) (Some 120) None =
     (Inl (FakeVideoException ''Invalid video ID: dQw4w9WgXcQQ''), [])"
  using
    download_video_rejects_invalid_id[of None "writing_download 1024" "''clip.mp4''"
      "Some 0" "Some 120" None]
    download_video_rejects_invalid_id[of "Some ''dQw4w9WgXc''" "writing_download 1024"
      "''clip.mp4''" "Some 0" "Some 120" None]
    download_video_rejects_invalid_id[of "Some ''dQw4w9WgXcQQ''" "writing_download 1024"
      "''clip.mp4''" "Some 0" "Some 120" None]
  by (simp add: fmt_def)

text \<open>
  Claim C6: for a well-formed identifier, an exception of the download provider is classified
  by its message, the tests being made in the order of the source: a blocking or
  format-unavailable phrase raises \<open>IPBlockedException\<close>; otherwise a phrase of a target that no
  longer exists or of a malformed reference raises \<open>FakeVideoException\<close>; any other exception,
  and a retrieved file of size 0, return \<open>None\<close> after a line has been printed.
\<close>

theorem download_video_classifies:
  "length v = 11 \<Longrightarrow>
   (let r = download_video ydl tmp (Some v) s e p;
        outcome = ydl (''https://www.youtube.com/watch?v='' @ v) (download_ranges s e) p
    in (\<forall>msg. outcome = DlRaises msg \<and> ip_blocked msg \<longrightarrow>
          fst r = Inl (IPBlockedException msg)) \<and>
       (\<forall>msg. outcome = DlRaises msg \<and> \<not> ip_blocked msg \<and> fake_video msg \<longrightarrow>
          fst r = Inl (FakeVideoException msg)) \<and>
       (\<forall>msg. outcome = DlRaises msg \<and> \<not> ip_blocked msg \<and> \<not> fake_video msg \<longrightarrow>
          fst r = Inr None \<and> Print (''Error downloading video: '' @ msg) \<in> set (snd r)) \<and>
       (outcome = DlWrote 0 \<longrightarrow>
          fst r = Inr None \<and>
          Print (''Error downloading video: '' @ tmp @ '' is empty'') \<in> set (snd r)))"
proof -
  assume len: "length v = 11"
  have valid: "is_valid_id (Some v)" using len by (simp add: is_valid_id_def)
  show ?thesis
  proof (cases "ydl (''https://www.youtube.com/watch?v='' @ v) (download_ranges s e) p")
    case (DlRaises str_e)
    then show ?thesis using valid by (simp add: download_video_def fmt_def Let_def)
  next
    case (DlWrote st_size)
    then show ?thesis using valid by (simp add: download_video_def fmt_def Let_def)
  qed
qed

theorem download_video_classifies_witness:
  "fst (download_video (raising_download ''ERROR: Requested format is not available'')
          ''clip.mp4'' (Some ''dQw4w9WgXcQ'') (Some 0) (Some 120) None) =
     Inl (IPBlockedException ''ERROR: Requested format is not available'')
   \<and> fst (download_video (raising_download ''ERROR: Video unavailable'') ''clip.mp4''
          (Some ''dQw4w9WgXcQ'') (Some 0) (Some 120) None) =
     Inl (FakeVideoException ''ERROR: Video unavailable'')
   \<and> fst (download_video (raising_download ''timed out'') ''clip.mp4''
          (Some ''dQw4w9WgXcQ'') (Some 0) (Some 120) None) = Inr None
   \<and> Print ''Error downloading video: timed out''
        \<in> set (snd (download_video (raising_download ''timed out'') ''clip.mp4''
              (Some ''dQw4w9WgXcQ'') (Some 0) (Some 120) None))
   \<and> fst (download_video (writing_download 0) ''clip.mp4''
          (Some ''dQw4w9WgXcQ'') (Some 0) (Some 120) None) = Inr None
   \<and> Print ''Error downloading video: clip.mp4 is empty''
        \<in> set (snd (download_video (writing_download 0) ''clip.mp4''
              (Some ''dQw4w9WgXcQ'') (Some 0) (Some 120) None))"
proof -
  have len: "length ''dQw4w9WgXcQ'' = 11" by simp
  have blocked: "ip_blocked ''ERROR: Requested format is not available''" by code_simp
  have fake:
    "\<not> ip_blocked ''ERROR: Video unavailable'' \<and> fake_video ''ERROR: Video unavailable''"
    by code_simp
  have other: "\<not> ip_blocked ''timed out'' \<and> \<not> fake_video ''timed out''" by code_simp
  note c = download_video_classifies[OF len, unfolded Let_def]
  have 1: "fst (download_video (raising_download ''ERROR: Requested format is not available'')
          ''clip.mp4'' (Some ''dQw4w9WgXcQ'') (Some 0) (Some 120) None) =
     Inl (IPBlockedException ''ERROR: Requested format is not available'')"
    using c[of "raising_download ''ERROR: Requested format is not available''"
        "Some 0" "Some 120" None "''clip.mp4''"] blocked
    by (simp add: raising_download_def)
  have 2: "fst (download_video (raising_download ''ERROR: Video unavailable'') ''clip.mp4''
          (Some ''dQw4w9WgXcQ'') (Some 0) (Some 120) None) =
     Inl (FakeVideoException ''ERROR: Video unavailable'')"
    using c[of "raising_download ''ERROR: Video unavailable''"
        "Some 0" "Some 120" None "''clip.mp4''"] fake
    by (simp add: raising_download_def)
  have 3: "fst (download_video (raising_download ''timed out'') ''clip.mp4''
          (Some ''dQw4w9WgXcQ'') (Some 0) (Some 120) None) = Inr None
   \<and> Print ''Error downloading video: timed out''
        \<in> set (snd (download_video (raising_download ''timed out'') ''clip.mp4''
              (Some ''dQw4w9WgXcQ'') (Some 0) (Some 120) None))"
    using c[of "raising_download ''timed out''" "Some 0" "Some 120" None "''clip.mp4''"] other
    by (simp add: raising_download_def)
  have 4: "fst (download_video (writing_download 0) ''clip.mp4''
          (Some ''dQw4w9WgXcQ'') (Some 0) (Some 120) None) = Inr None
   \<and> Print ''Error downloading video: clip.mp4 is empty''
        \<in> set (snd (download_video (writing_download 0) ''clip.mp4''
              (Some ''dQw4w9WgXcQ'') (Some 0) (Some 120) None))"
    using c[of "writing_download 0" "Some 0" "Some 120" None "''clip.mp4''"]
    by (simp add: writing_download_def)
  show ?thesis using 1 2 3 4 by simp
qed

section \<open>Failure of the search\<close>

text \<open>
  Claim C7: for every query and result count, when the search provider raises, \<open>search_videos\<close>
  returns the empty list (after printing the error) and raises nothing.
\<close>

theorem search_videos_provider_failure:
  "ydl max_results query = SearchRaises msg \<Longrightarrow>
   search_videos ydl query max_results =
     ([], [ExtractInfo max_results query, Print (''Error searching for videos: '' @ msg)])"
  by (simp add: search_videos_def search_videos_try_def message_def)

theorem search_videos_provider_failure_witness:
  "extract_info failing_search_env 12 ''omega'' = SearchRaises ''network down''
   \<and> search_videos (extract_info failing_search_env) ''omega'' 12 =
     ([], [ExtractInfo 12 ''omega'', Print ''Error searching for videos: network down''])"
proof -
  have f: "extract_info failing_search_env 12 ''omega'' = SearchRaises ''network down''"
    by (simp add: failing_search_env_def sample_env_def)
  show ?thesis
    using search_videos_provider_failure[of "extract_info failing_search_env" 12 "''omega''"
        "''network down''"] f
    by simp
qed

section \<open>Release of the media handle\<close>

text \<open>The monitor reads a run in pieces: it goes on from where the first piece left it.\<close>

lemma track_append:
  "track live (xs @ ys) =
     (case track live xs of None \<Rightarrow> None | Some live' \<Rightarrow> track live' ys)"
  by (induction xs arbitrary: live) (auto split: option.splits)

text \<open>
  \<open>download_video\<close> leaves a handle live exactly when it returns one; on every other path,
  raising or returning \<open>None\<close>, it has closed the temporary file it created.
\<close>

lemma track_download:
  "download_video ydl tmp vid s e p = (res, evs) \<Longrightarrow>
   track None evs = Some (case res of Inr (Some h) \<Rightarrow> Some h | _ \<Rightarrow> None)"
  by (auto simp add: download_video_def Let_def split: dl_outcome.splits if_splits)

lemma track_embed:
  "embed_candidate env i r st dp = (res, evs) \<Longrightarrow> track live evs = Some live"
  by (auto simp add: embed_candidate_def Let_def split: embed_outcome.splits list.splits)

lemma track_process:
  assumes "process_candidate env i r = (res, evs)"
  shows "track None evs = Some None"
proof -
  obtain o1 ev1 where d: "download_video (ydl_download env i) (mktemp env i) (Some (video_id r))
      (Some 0) (Some (min (length_yt r) MAX_DURATION)) None = (o1, ev1)"
    by fastforce
  note t1 = track_download[OF d]
  show ?thesis
  proof (cases o1)
    case (Inl err)
    then show ?thesis using assms d t1 by (auto simp add: process_candidate_def)
  next
    case (Inr got)
    show ?thesis
    proof (cases got)
      case None
      then show ?thesis using assms d t1 Inr by (auto simp add: process_candidate_def)
    next
      case (Some download_path)
      obtain o2 ev2 where e: "embed_candidate env i r (clock env i) download_path = (o2, ev2)"
        by fastforce
      have t2: "track (Some download_path) ev2 = Some (Some download_path)"
        by (rule track_embed[OF e])
      have evs: "evs = Time # ev1 @ ev2 @ [Close download_path]"
        using assms d e Inr Some
        by (auto simp add: process_candidate_def Let_def split: sum.splits)
      show ?thesis using t1 t2 Inr Some by (simp add: evs track_append)
    qed
  qed
qed

lemma track_loop: "loop env N i rs ms = (res, evs) \<Longrightarrow> track None evs = Some None"
proof (induction rs arbitrary: i ms res evs)
  case Nil
  then show ?case by simp
next
  case (Cons r rs)
  obtain o1 ev1 where p: "process_candidate env i r = (o1, ev1)" by fastforce
  note t1 = track_process[OF p]
  show ?case
  proof (cases o1)
    case (Inl err)
    then show ?thesis using Cons.prems p t1 by simp
  next
    case (Inr appended)
    define ms' where "ms' = (case appended of None \<Rightarrow> ms | Some m \<Rightarrow> ms @ [m])"
    show ?thesis
    proof (cases "int (length ms') = N")
      case True
      then show ?thesis using Cons.prems p t1 Inr by (simp add: ms'_def Let_def)
    next
      case False
      obtain o2 ev2 where l: "loop env N (Suc i) rs ms' = (o2, ev2)" by fastforce
      have "evs = ev1 @ ev2" using Cons.prems p Inr False l by (simp add: ms'_def Let_def)
      then show ?thesis using t1 Cons.IH[OF l] by (simp add: track_append)
    qed
  qed
qed

lemma track_search: "search_videos ydl q n = (res, evs) \<Longrightarrow> track live evs = Some live"
  by (auto simp add: search_videos_def split: sum.splits)

text \<open>
  Claim C8: in every run, whatever the collaborators do and whether the run returns or raises,
  the monitor reads the events to the end and ends with no live handle: a temporary file is
  created only when none is live, so at most one is live at any time; the handle closed is
  the live one; no handle is live when the next candidate starts (the reading of the clock);
  and none is live when the run ends.
\<close>

theorem media_handle_released:
  "track None (snd (search_and_embed_videos env query num_videos)) = Some None"
proof (cases "int_times_1_5 num_videos")
  case (Inl e)
  then show ?thesis by (simp add: search_and_embed_videos_def)
next
  case (Inr max_results)
  obtain results ev1 where
    s: "search_videos (extract_info env) query max_results = (results, ev1)"
    by fastforce
  obtain r ev2 where l: "loop env num_videos 0 results [] = (r, ev2)" by fastforce
  have "snd (search_and_embed_videos env query num_videos) =
        ev1 @ [PrintLen ''search_results'' (length results)] @ ev2"
    using s l Inr by (simp add: search_and_embed_videos_def)
  then show ?thesis
    using track_search[OF s, of None] track_loop[OF l] by (simp add: track_append)
qed

text \<open>A run in which the embedding raises: the handle is closed before the exception leaves.\<close>

theorem media_handle_released_witness:
  "search_and_embed_videos failing_embed_env ''omega'' 1 =
      (Inl (Exception ''out of memory''),
       [ExtractInfo 1 ''omega'', PrintLen ''search_results'' 1, Time, Mktemp ''clip.mp4'',
        Download ''https://www.youtube.com/watch?v=dQw4w9WgXcQ'' (Some (0, 120)) None,
        Embed [''omega''] [''clip.mp4''], Close ''clip.mp4''])
   \<and> track None (snd (search_and_embed_videos failing_embed_env ''omega'' 1)) = Some None"
proof -
  have run: "search_and_embed_videos failing_embed_env ''omega'' 1 =
      (Inl (Exception ''out of memory''),
       [ExtractInfo 1 ''omega'', PrintLen ''search_results'' 1, Time, Mktemp ''clip.mp4'',
        Download ''https://www.youtube.com/watch?v=dQw4w9WgXcQ'' (Some (0, 120)) None,
        Embed [''omega''] [''clip.mp4''], Close ''clip.mp4''])"
    by (simp add: run_defs failing_embed_env_def)
  show ?thesis
    using run media_handle_released[of failing_embed_env "''omega''" 1] by blast
qed

section \<open>Description synthesis\<close>

text \<open>
  Claim C9, amended: the description is a function of the title and the optional description
  alone (the other fields do not matter): the title, followed by a blank line and the body
  only when the description is present and is not the empty string.
\<close>

theorem get_description_value:
  "get_description yt =
     title yt @ (case description yt of
                   None \<Rightarrow> []
                 | Some d \<Rightarrow> if d = [] then [] else [CHR 0x0A, CHR 0x0A] @ d)
   \<and> get_description (yt\<lparr>video_id := v, length_yt := l, views := n\<rparr>) = get_description yt"
  by (simp add: get_description_def split: option.splits)

text \<open>
  The claim as stated fails for a description that is present and empty: the result is the
  title alone, without the blank line.
\<close>

theorem get_description_empty_body_counterexample:
  "get_description \<lparr>video_id = ''dQw4w9WgXcQ'', title = ''omega'', description = Some [],
     length_yt = 50, views = 7\<rparr> \<noteq> ''omega'' @ [CHR 0x0A, CHR 0x0A] @ []"
  by (simp add: get_description_def)

section \<open>Defaults of the candidate fields\<close>

text \<open>
  The candidates that \<open>search_videos\<close> builds from entries that all carry an id and a title:
  one per entry, in order. The length is 120 for an absent duration and for the duration 0,
  and the duration cut to an integer otherwise; the views are the view count, and 0 when it
  is absent.
\<close>

lemma results_of_entries_present:
  "results_of_entries
     (map (\<lambda>(i, t, d, dur, vc).
             \<lparr>e_id = Some i, e_title = Some t, e_description = d, e_duration = dur,
              e_view_count = vc\<rparr>) xs) =
   Inr (map (\<lambda>(i, t, d, dur, vc).
               \<lparr>video_id = i, title = t, description = d,
                length_yt = (case dur of None \<Rightarrow> 120 | Some x \<Rightarrow> if x = 0 then 120 else py_int x),
                views = (case vc of None \<Rightarrow> 0 | Some v \<Rightarrow> v)\<rparr>) xs)"
proof (induction xs)
  case Nil
  show ?case by simp
next
  case (Cons x xs)
  obtain i t d dur vc where x: "x = (i, t, d, dur, vc)" by (cases x)
  show ?case
    using Cons.IH
    by (simp add: x result_of_entry_def MAX_DURATION_def split: option.splits)
qed

text \<open>
  Claim C10: in \<open>search_videos\<close> the defaults follow truthiness, not presence. For every list
  of entries with id and title, whatever their other fields: a duration that is present and 0
  gives the length 120, as an absent one does, and any other duration is kept (cut to an
  integer); a view count that is 0 or absent gives 0 views, and any other view count is kept.
  The instances after the general statement: the duration 0 beside 7 views, the duration 50
  beside the view count 0, both fields absent, and the runs with a field 0 and with that
  field absent, which agree for every entry.
\<close>

theorem search_videos_truthiness:
  "search_videos
     (\<lambda>n q. SearchReturns (Some
        (map (\<lambda>(i, t, d, dur, vc).
                \<lparr>e_id = Some i, e_title = Some t, e_description = d, e_duration = dur,
                 e_view_count = vc\<rparr>) xs))) query max_results =
     (map (\<lambda>(i, t, d, dur, vc).
             \<lparr>video_id = i, title = t, description = d,
              length_yt = (case dur of None \<Rightarrow> 120 | Some x \<Rightarrow> if x = 0 then 120 else py_int x),
              views = (case vc of None \<Rightarrow> 0 | Some v \<Rightarrow> v)\<rparr>) xs,
      [ExtractInfo max_results query])
   \<and> search_videos (\<lambda>n q. SearchReturns (Some [\<lparr>e_id = Some i, e_title = Some t,
         e_description = d, e_duration = Some 0, e_view_count = Some 7\<rparr>])) query max_results =
     ([\<lparr>video_id = i, title = t, description = d, length_yt = 120, views = 7\<rparr>],
      [ExtractInfo max_results query])
   \<and> search_videos (\<lambda>n q. SearchReturns (Some [\<lparr>e_id = Some i, e_title = Some t,
         e_description = d, e_duration = Some 50, e_view_count = Some 0\<rparr>])) query max_results =
     ([\<lparr>video_id = i, title = t, description = d, length_yt = 50, views = 0\<rparr>],
      [ExtractInfo max_results query])
   \<and> search_videos (\<lambda>n q. SearchReturns (Some [\<lparr>e_id = Some i, e_title = Some t,
         e_description = d, e_duration = Some 0, e_view_count = Some 0\<rparr>])) query max_results =
     ([\<lparr>video_id = i, title = t, description = d, length_yt = 120, views = 0\<rparr>],
      [ExtractInfo max_results query])
   \<and> search_videos (\<lambda>n q. SearchReturns (Some [\<lparr>e_id = Some i, e_title = Some t,
         e_description = d, e_duration = None, e_view_count = None\<rparr>])) query max_results =
     ([\<lparr>video_id = i, title = t, description = d, length_yt = 120, views = 0\<rparr>],
      [ExtractInfo max_results query])
   \<and> search_videos (\<lambda>n q. SearchReturns (Some [e\<lparr>e_duration := Some 0\<rparr>])) query max_results =
     search_videos (\<lambda>n q. SearchReturns (Some [e\<lparr>e_duration := None\<rparr>])) query max_results
   \<and> search_videos (\<lambda>n q. SearchReturns (Some [e\<lparr>e_view_count := Some 0\<rparr>])) query max_results =
     search_videos (\<lambda>n q. SearchReturns (Some [e\<lparr>e_view_count := None\<rparr>])) query max_results"
proof -
  have general: "search_videos
     (\<lambda>n q. SearchReturns (Some
        (map (\<lambda>(i, t, d, dur, vc).
                \<lparr>e_id = Some i, e_title = Some t, e_description = d, e_duration = dur,
                 e_view_count = vc\<rparr>) ys))) query max_results =
     (map (\<lambda>(i, t, d, dur, vc).
             \<lparr>video_id = i, title = t, description = d,
              length_yt = (case dur of None \<Rightarrow> 120 | Some x \<Rightarrow> if x = 0 then 120 else py_int x),
              views = (case vc of None \<Rightarrow> 0 | Some v \<Rightarrow> v)\<rparr>) ys,
      [ExtractInfo max_results query])" for ys
    by (simp add: search_videos_def search_videos_try_def results_of_entries_present)
  have single: "search_videos (\<lambda>n q. SearchReturns (Some [\<lparr>e_id = Some i, e_title = Some t,
         e_description = d, e_duration = dur, e_view_count = vc\<rparr>])) query max_results =
     ([\<lparr>video_id = i, title = t, description = d,
        length_yt = (case dur of None \<Rightarrow> 120 | Some x \<Rightarrow> if x = 0 then 120 else py_int x),
        views = (case vc of None \<Rightarrow> 0 | Some v \<Rightarrow> v)\<rparr>],
      [ExtractInfo max_results query])" for dur vc
    using general[of "[(i, t, d, dur, vc)]"] by simp
  have dur: "result_of_entry (e\<lparr>e_duration := Some 0\<rparr>) = result_of_entry (e\<lparr>e_duration := None\<rparr>)"
    by (simp add: result_of_entry_def split: option.splits)
  have vc:
    "result_of_entry (e\<lparr>e_view_count := Some 0\<rparr>) = result_of_entry (e\<lparr>e_view_count := None\<rparr>)"
    by (simp add: result_of_entry_def split: option.splits)
  have c1: "search_videos (\<lambda>n q. SearchReturns (Some [e\<lparr>e_duration := Some 0\<rparr>])) query max_results =
     search_videos (\<lambda>n q. SearchReturns (Some [e\<lparr>e_duration := None\<rparr>])) query max_results"
    by (simp add: search_videos_def search_videos_try_def dur)
  have c2: "search_videos (\<lambda>n q. SearchReturns (Some [e\<lparr>e_view_count := Some 0\<rparr>])) query max_results =
     search_videos (\<lambda>n q. SearchReturns (Some [e\<lparr>e_view_count := None\<rparr>])) query max_results"
    by (simp add: search_videos_def search_videos_try_def vc)
  show ?thesis
    using general[of xs] single[of "Some 0" "Some 7"] single[of "Some 50" "Some 0"]
      single[of "Some 0" "Some 0"] single[of None None] c1 c2
    by (simp add: py_int_def)
qed

end
